theory Spec2Isabelle
  imports Complex_Main
begin

section \<open>Python values, errors and built-ins\<close>

text \<open>
  The program is Python: \<^verbatim>\<open>ws.py\<close> (samplers and the weather station) and
  \<^verbatim>\<open>mqtt.py\<close> (the publishing listener). Numbers are modelled in exact real
  arithmetic: a Python float is read as the real number it stands for, so rounding
  errors of the floating-point unit are outside the model. The circular mean, whose
  branches turn on the sign of rounded sums, is also given with its arithmetic as a
  parameter. Every raise of the source is a value \<open>Inl e\<close> of a sum type.
\<close>

datatype py_error = ZeroDivisionError | AttributeError

text \<open>A value held by a reading: \<^verbatim>\<open>None\<close>, a number or a string.\<close>

datatype pyval = PNone | PNum real | PStr string

text \<open>\<^verbatim>\<open>int(x)\<close> on a float truncates toward zero.\<close>

definition py_int :: "real \<Rightarrow> int" where
  "py_int x = (if 0 \<le> x then \<lfloor>x\<rfloor> else \<lceil>x\<rceil>)"

text \<open>
  The slice \<^verbatim>\<open>xs[start:]\<close>: a negative start counts from the end and is
  clipped at the front, a non-negative one is clipped at the end.
\<close>

definition py_slice_from :: "int \<Rightarrow> 'a list \<Rightarrow> 'a list" where
  "py_slice_from start xs =
     (let n = int (length xs);
          i = (if start < 0 then max 0 (n + start) else min start n)
      in drop (nat i) xs)"

text \<open>
  \<^verbatim>\<open>round(x)\<close> rounds to the nearest integer, ties to the even one;
  \<^verbatim>\<open>round(x, 1)\<close> does the same at one decimal.
\<close>

definition py_round :: "real \<Rightarrow> int" where
  "py_round x =
     (let f = \<lfloor>x\<rfloor>; d = x - of_int f
      in if d < 1 / 2 then f
         else if 1 / 2 < d then f + 1
         else if even f then f else f + 1)"

definition py_round1 :: "real \<Rightarrow> real" where
  "py_round1 x = of_int (py_round (x * 10)) / 10"

definition radians :: "real \<Rightarrow> real" where
  "radians x = x * pi / 180"

definition degrees :: "real \<Rightarrow> real" where
  "degrees x = x * 180 / pi"

section \<open>IntervalSampler: the sliding window\<close>

text \<open>
  \<^verbatim>\<open>IntervalSampler\<close> keeps \<^verbatim>\<open>_interval\<close> (seconds), \<^verbatim>\<open>_size\<close> and, once
  started, the window \<^verbatim>\<open>_data\<close>. The two \<^verbatim>\<open>timedelta\<close> arguments of the
  constructor are given by their \<^verbatim>\<open>total_seconds()\<close>.
\<close>

record 'a interval_sampler =
  sampler_interval :: real
  sampler_size :: int
  sampler_data :: "'a list"

text \<open>
  \<^verbatim>\<open>__init__\<close>: the float division raises on a zero interval; nothing else is
  checked. The window does not exist before \<^verbatim>\<open>start\<close>; it is the empty list here.
  The quotient is the exact one. The float quotient of the source can fall just below a
  whole number that the exact quotient reaches (0.3 s over 0.1 s is 2.9999999999999996,
  capacity 2), so the capacity of the model is used only where both agree: at
  quotients below 1, and at the whole-number settings of \<^verbatim>\<open>WeatherStation\<close>.
\<close>

definition IntervalSampler_init :: "real \<Rightarrow> real \<Rightarrow> py_error + 'a interval_sampler" where
  "IntervalSampler_init interval duration =
     (if interval = 0 then Inl ZeroDivisionError
      else Inr \<lparr>sampler_interval = interval,
                sampler_size = py_int (duration / interval),
                sampler_data = []\<rparr>)"

text \<open>
  \<^verbatim>\<open>_store\<close>: append, then keep \<^verbatim>\<open>self._data[-self._size:]\<close>. The callback is
  started with the window as it is after the slice (\<open>sampler_data\<close> of the result).
\<close>

definition store :: "'a interval_sampler \<Rightarrow> 'a \<Rightarrow> 'a interval_sampler" where
  "store s sample =
     s\<lparr>sampler_data := py_slice_from (- sampler_size s) (sampler_data s @ [sample])\<rparr>"

text \<open>\<^verbatim>\<open>start\<close> resets the window; the samples then arrive one \<^verbatim>\<open>_store\<close> each.\<close>

definition start :: "'a interval_sampler \<Rightarrow> 'a interval_sampler" where
  "start s = s\<lparr>sampler_data := []\<rparr>"

definition store_all :: "'a interval_sampler \<Rightarrow> 'a list \<Rightarrow> 'a interval_sampler" where
  "store_all s samples = foldl store s samples"

section \<open>ButtonSampler: the pulse counter\<close>

text \<open>
  \<^verbatim>\<open>ButtonSampler\<close> adds the counter \<^verbatim>\<open>_count\<close>. \<^verbatim>\<open>_tick\<close> runs on the pulse
  source's thread, \<^verbatim>\<open>_sample\<close> on a timer thread, and the source takes no lock. The
  two statements of \<^verbatim>\<open>_sample\<close> are therefore two steps of the model, between
  which a \<^verbatim>\<open>_tick\<close> may run; \<^verbatim>\<open>_tick\<close> itself is taken as one step, which
  favours the code.
\<close>

record button_sampler =
  count :: int
  window :: "int interval_sampler"

datatype button_action =
    Tick          \<comment> \<open>\<^verbatim>\<open>self._count += 1\<close>\<close>
  | SampleStore   \<comment> \<open>\<^verbatim>\<open>self._store(self._count)\<close>\<close>
  | SampleReset   \<comment> \<open>\<^verbatim>\<open>self._count = 0\<close>\<close>

fun button_step :: "button_sampler \<Rightarrow> button_action \<Rightarrow> button_sampler" where
  "button_step b Tick = b\<lparr>count := count b + 1\<rparr>"
| "button_step b SampleStore = b\<lparr>window := store (window b) (count b)\<rparr>"
| "button_step b SampleReset = b\<lparr>count := 0\<rparr>"

definition run_steps :: "button_sampler \<Rightarrow> button_action list \<Rightarrow> button_sampler" where
  "run_steps b steps = foldl button_step b steps"

text \<open>\<^verbatim>\<open>ButtonSampler.start\<close>: counter to zero, window reset.\<close>

definition button_start :: "int interval_sampler \<Rightarrow> button_sampler" where
  "button_start s = \<lparr>count = 0, window = start s\<rparr>"

text \<open>One \<^verbatim>\<open>_sample\<close> that no pulse interrupts, and \<open>n\<close> pulses in a row.\<close>

definition sample_uninterrupted :: "button_action list" where
  "sample_uninterrupted = [SampleStore, SampleReset]"

definition ticks :: "nat \<Rightarrow> button_action list" where
  "ticks n = replicate n Tick"

section \<open>Circular mean\<close>

text \<open>The loop of \<^verbatim>\<open>average_angles\<close> over the angles, with both running sums.\<close>

fun angle_sums :: "real list \<Rightarrow> real \<times> real \<Rightarrow> real \<times> real" where
  "angle_sums [] (sin_sum, cos_sum) = (sin_sum, cos_sum)"
| "angle_sums (angle # angles) (sin_sum, cos_sum) =
     angle_sums angles (sin_sum + sin (radians angle), cos_sum + cos (radians angle))"

text \<open>
  \<^verbatim>\<open>average_angles\<close>. The division by \<^verbatim>\<open>flen\<close> is outside the \<^verbatim>\<open>try\<close>; the
  division \<^verbatim>\<open>s / c\<close> is inside it, and the handler sets \<^verbatim>\<open>arc = 90\<close>.
  \<^verbatim>\<open>average\<close> starts at 0 and keeps it when no branch is taken.
\<close>

definition average_angles :: "real list \<Rightarrow> py_error + real" where
  "average_angles angles =
     (let (sin_sum, cos_sum) = angle_sums angles (0, 0);
          flen = real (length angles)
      in if flen = 0 then Inl ZeroDivisionError
         else
           let s = sin_sum / flen;
               c = cos_sum / flen;
               arc = (if c = 0 then 90 else degrees (arctan (s / c)));
               average =
                 (if 0 < s \<and> 0 \<le> c then arc
                  else if c \<le> 0 then arc + 180
                  else if s < 0 \<and> 0 < c then arc + 360
                  else 0)
           in Inr (if average = 360 then 0 else average))"











section \<open>WindDirectionSampler: the threshold classifier\<close>

text \<open>
  A Python \<^verbatim>\<open>dict\<close> keeps its keys in insertion order: it is a list of pairs with
  distinct keys. \<^verbatim>\<open>d.update({k: v})\<close> replaces the value of a key in place and
  appends a new key.
\<close>

fun dict_update :: "'k \<Rightarrow> 'v \<Rightarrow> ('k \<times> 'v) list \<Rightarrow> ('k \<times> 'v) list" where
  "dict_update k v [] = [(k, v)]"
| "dict_update k v ((k', v') # kvs) =
     (if k' = k then (k, v) # kvs else (k', v') # dict_update k v kvs)"

definition RESISTANCE_BY_ANGLE :: "(real \<times> real) list" where
  "RESISTANCE_BY_ANGLE =
     [(270, 120000), (315, 64900), (292.5, 42120), (0, 33000),
      (337.5, 21880), (225, 16000), (247.5, 14120), (45, 8200),
      (22.5, 6570), (180, 3900), (202.5, 3140), (135, 2200),
      (157.5, 1410), (90, 1000), (67.5, 891), (112.5, 668)]"

definition WIND_DIRECTION_RESISTOR :: real where
  "WIND_DIRECTION_RESISTOR = 4700"

text \<open>The first loop of \<^verbatim>\<open>WindDirectionSampler.__init__\<close>: one ratio per resistance.\<close>

fun values_loop :: "real \<Rightarrow> real list \<Rightarrow> real list \<Rightarrow> py_error + real list" where
  "values_loop r [] values = Inr values"
| "values_loop r (resistance # rest) values =
     (if r + resistance = 0 then Inl ZeroDivisionError
      else values_loop r rest (values @ [r / (r + resistance)]))"

text \<open>
  The second loop, over the angles with the index \<^verbatim>\<open>i\<close>: the entry at index
  \<^verbatim>\<open>len - 1\<close> gets the threshold 1, and every other entry the mean of its ratio
  and the next one.
\<close>

fun thresholds_loop ::
  "real list \<Rightarrow> int \<Rightarrow> real list \<Rightarrow> int \<Rightarrow> (real \<times> real) list \<Rightarrow> (real \<times> real) list" where
  "thresholds_loop values n [] i thresholds = thresholds"
| "thresholds_loop values n (angle # angles) i thresholds =
     (if i = n - 1 then thresholds_loop values n angles i (dict_update angle 1 thresholds)
      else thresholds_loop values n angles (i + 1)
             (dict_update angle ((values ! nat i + values ! nat (i + 1)) / 2) thresholds))"

definition thresholds_by_angle :: "real \<Rightarrow> py_error + (real \<times> real) list" where
  "thresholds_by_angle r =
     (case values_loop r (map snd RESISTANCE_BY_ANGLE) [] of
        Inl e \<Rightarrow> Inl e
      | Inr values \<Rightarrow>
          Inr (thresholds_loop values (int (length RESISTANCE_BY_ANGLE))
                 (map fst RESISTANCE_BY_ANGLE) 0 []))"

text \<open>
  \<^verbatim>\<open>degree\<close>: the angle of the first threshold that the value does not exceed;
  the loop falls through to \<^verbatim>\<open>None\<close> when there is none.
\<close>

fun degree :: "(real \<times> real) list \<Rightarrow> real \<Rightarrow> real option" where
  "degree [] v = None"
| "degree ((angle, threshold) # rest) v =
     (if v \<le> threshold then Some angle else degree rest v)"

text \<open>
  The table as the specification reads it: the ratio of entry \<open>i\<close> and the threshold
  of entry \<open>i\<close>, for the pull-up resistance \<open>r\<close>.
\<close>

definition ratio :: "real \<Rightarrow> nat \<Rightarrow> real" where
  "ratio r i = r / (r + snd (RESISTANCE_BY_ANGLE ! i))"

definition threshold_spec :: "real \<Rightarrow> nat \<Rightarrow> real" where
  "threshold_spec r i =
     (if Suc i = length RESISTANCE_BY_ANGLE then 1 else (ratio r i + ratio r (Suc i)) / 2)"

section \<open>SensorReading and the reading store\<close>

text \<open>
  \<^verbatim>\<open>SensorReading\<close>: value, timestamp (seconds since the epoch) and unit. A missing
  timestamp argument is replaced by the current time, the parameter \<open>now\<close>.
\<close>

record SensorReading =
  reading_value :: pyval
  reading_timestamp :: real
  reading_unit :: "string option"

definition SensorReading_init ::
  "pyval \<Rightarrow> real option \<Rightarrow> string option \<Rightarrow> real \<Rightarrow> SensorReading" where
  "SensorReading_init v ts u now =
     \<lparr>reading_value = v,
      reading_timestamp = (case ts of None \<Rightarrow> now | Some t \<Rightarrow> t),
      reading_unit = u\<rparr>"

definition update :: "SensorReading \<Rightarrow> pyval \<Rightarrow> real option \<Rightarrow> real \<Rightarrow> SensorReading" where
  "update reading v ts now =
     reading\<lparr>reading_value := v,
             reading_timestamp := (case ts of None \<Rightarrow> now | Some t \<Rightarrow> t)\<rparr>"

definition bind_err :: "py_error + 'a \<Rightarrow> ('a \<Rightarrow> py_error + 'b) \<Rightarrow> py_error + 'b" where
  "bind_err m f = (case m of Inl e \<Rightarrow> Inl e | Inr x \<Rightarrow> f x)"

text \<open>
  \<^verbatim>\<open>self._readings.get(key).update(v)\<close>: \<^verbatim>\<open>get\<close> gives \<^verbatim>\<open>None\<close> for a key the
  store lacks, and the call of \<^verbatim>\<open>update\<close> on it raises.
\<close>

definition reading_update ::
  "string \<Rightarrow> pyval \<Rightarrow> real \<Rightarrow> (string \<times> SensorReading) list
     \<Rightarrow> py_error + (string \<times> SensorReading) list" where
  "reading_update key v now readings =
     (case map_of readings key of
        None \<Rightarrow> Inl AttributeError
      | Some reading \<Rightarrow> Inr (dict_update key (update reading v None now) readings))"

section \<open>WeatherStation\<close>

definition AIR_SAMPLE_INTERVAL :: real where
  "AIR_SAMPLE_INTERVAL = 60"

definition RAIN_SAMPLE_INTERVAL :: real where
  "RAIN_SAMPLE_INTERVAL = 300"

definition RAIN_SAMPLE_DURATION :: real where
  "RAIN_SAMPLE_DURATION = 86400"

definition WIND_SPEED_SAMPLE_INTERVAL :: real where
  "WIND_SPEED_SAMPLE_INTERVAL = 3"

definition WIND_DIRECTION_SAMPLE_INTERVAL :: real where
  "WIND_DIRECTION_SAMPLE_INTERVAL = 1"

definition WIND_DIRECTION_SAMPLE_DURATION :: real where
  "WIND_DIRECTION_SAMPLE_DURATION = WIND_SPEED_SAMPLE_INTERVAL"

definition RAIN_SCALE_FACTOR :: real where
  "RAIN_SCALE_FACTOR = 0.2794"

text \<open>
  The store of \<^verbatim>\<open>WeatherStation.__init__\<close>, entry by entry as the dictionary display
  lists them: \<^verbatim>\<open>humidity\<close> is listed twice, and the two trend readings are built
  with their unit in the place of the value. The degree sign is its two UTF-8 bytes.
\<close>

definition degC :: string where
  "degC = [CHR 0xC2, CHR 0xB0, CHR ''C'']"

definition readings_display :: "real \<Rightarrow> (string \<times> SensorReading) list" where
  "readings_display now =
     [(''humidity'', SensorReading_init PNone None (Some ''%'') now),
      (''pressure'', SensorReading_init PNone None (Some ''hPa'') now),
      (''pressure-trend'', SensorReading_init (PStr ''hPa/hr'') None None now),
      (''temperature'', SensorReading_init PNone None (Some degC) now),
      (''temperature-trend'', SensorReading_init (PStr (degC @ ''/hr'')) None None now),
      (''humidity'', SensorReading_init PNone None (Some ''%'') now),
      (''dew_point'', SensorReading_init PNone None (Some degC) now),
      (''wind_deg'', SensorReading_init PNone None (Some ''degrees'') now),
      (''wind_gust'', SensorReading_init PNone None (Some ''m/s'') now),
      (''wind_speed'', SensorReading_init PNone None (Some ''m/s'') now),
      (''rain_1h'', SensorReading_init PNone None (Some ''mm'') now),
      (''rain_6h'', SensorReading_init PNone None (Some ''mm'') now),
      (''rain_24h'', SensorReading_init PNone None (Some ''mm'') now)]"

definition WeatherStation_readings :: "real \<Rightarrow> (string \<times> SensorReading) list" where
  "WeatherStation_readings now =
     foldl (\<lambda>d (key, reading). dict_update key reading d) [] (readings_display now)"

text \<open>
  \<^verbatim>\<open>_publish\<close>: the readings of the store whose key is in \<^verbatim>\<open>keys\<close>; this is the
  batch handed to the listener.
\<close>

definition publish ::
  "(string \<times> SensorReading) list \<Rightarrow> string set \<Rightarrow> (string \<times> SensorReading) list" where
  "publish readings keys = filter (\<lambda>(key, reading). key \<in> keys) readings"

text \<open>
  \<^verbatim>\<open>_rain_sample\<close>: three updates, then \<^verbatim>\<open>_publish\<close> with the key set as the source
  writes it. The result is the store and the batch.
\<close>

definition rain_sample ::
  "int list \<Rightarrow> real \<Rightarrow> (string \<times> SensorReading) list
     \<Rightarrow> py_error + (string \<times> SensorReading) list \<times> (string \<times> SensorReading) list" where
  "rain_sample data_w now readings =
     bind_err (reading_update ''rain_1h''
        (PNum (RAIN_SCALE_FACTOR *
           of_int (sum_list (py_slice_from (- py_int (3600 / RAIN_SAMPLE_INTERVAL)) data_w))))
        now readings) (\<lambda>r1.
     bind_err (reading_update ''rain_6h''
        (PNum (RAIN_SCALE_FACTOR *
           of_int (sum_list (py_slice_from (- py_int (6 * 3600 / RAIN_SAMPLE_INTERVAL)) data_w))))
        now r1) (\<lambda>r2.
     bind_err (reading_update ''rain_24h''
        (PNum (RAIN_SCALE_FACTOR * of_int (sum_list data_w))) now r2) (\<lambda>r3.
     Inr (r3, publish r3 {''rain_1h'', ''rain_6h'', ''rain_24''}))))"

text \<open>The keys of a store whose reading differs between two states of the store.\<close>

definition updated_keys ::
  "(string \<times> SensorReading) list \<Rightarrow> (string \<times> SensorReading) list \<Rightarrow> string list" where
  "updated_keys before after =
     filter (\<lambda>key. map_of before key \<noteq> map_of after key) (map fst after)"

text \<open>\<^verbatim>\<open>_wind_direction_sample\<close>: the rounded circular mean of the window.\<close>

definition wind_direction_sample ::
  "real list \<Rightarrow> real \<Rightarrow> (string \<times> SensorReading) list
     \<Rightarrow> py_error + (string \<times> SensorReading) list \<times> (string \<times> SensorReading) list" where
  "wind_direction_sample data_w now readings =
     bind_err (average_angles data_w) (\<lambda>average.
     bind_err (reading_update ''wind_deg'' (PNum (of_int (py_round average))) now readings) (\<lambda>r1.
     Inr (r1, publish r1 {''wind_deg''})))"

section \<open>Trend\<close>

text \<open>
  \<^verbatim>\<open>numpy.polyfit(x, y, 1)[0]\<close> is a call into the numpy library: the slope of the
  least-squares line through the points. It is modelled in exact arithmetic by the
  solution of the normal equations.
\<close>

definition polyfit_slope :: "real list \<Rightarrow> real list \<Rightarrow> real" where
  "polyfit_slope xs ys =
     (let n = real (length xs);
          sx = sum_list xs;
          sy = sum_list ys;
          sxy = sum_list (map2 (\<lambda>x y. x * y) xs ys);
          sxx = sum_list (map (\<lambda>x. x * x) xs)
      in (n * sxy - sx * sy) / (n * sxx - sx * sx))"

definition trend :: "real list \<Rightarrow> real" where
  "trend data_w =
     (if length data_w \<le> 1 then 0
      else polyfit_slope (map real [0..<length data_w]) data_w)"

text \<open>
  The trend readings of \<^verbatim>\<open>_bme280_sample\<close>: the trend of the series, scaled to one
  hour, and rounded to one decimal for the store.
\<close>

definition trend_per_hour :: "real list \<Rightarrow> real" where
  "trend_per_hour series = trend series * 3600 / AIR_SAMPLE_INTERVAL"

definition trend_reading :: "real list \<Rightarrow> real" where
  "trend_reading series = py_round1 (trend_per_hour series)"

text \<open>
  The intercept that belongs to the slope, \<^verbatim>\<open>numpy.polyfit(x, y, 1)[1]\<close>; the source
  drops it, the proofs need it to name the fitted line.
\<close>

definition intercept :: "real list \<Rightarrow> real" where
  "intercept ys =
     ((\<Sum>i<length ys. ys ! i) - trend ys * (\<Sum>i<length ys. real i)) / real (length ys)"

text \<open>
  Least squares as the specification names it: the sum of the squared residuals of
  the line \<open>a * i + b\<close> against the series at the sample indices \<open>0, 1, 2, \<dots>\<close>, and a
  line that no other line beats.
\<close>

definition sse :: "real list \<Rightarrow> real \<Rightarrow> real \<Rightarrow> real" where
  "sse series a b = (\<Sum>i<length series. (series ! i - (a * real i + b))\<^sup>2)"

definition least_squares_line :: "real list \<Rightarrow> real \<Rightarrow> real \<Rightarrow> bool" where
  "least_squares_line series a b \<longleftrightarrow> (\<forall>a' b'. sse series a b \<le> sse series a' b')"

section \<open>The listener of mqtt.py\<close>

text \<open>
  The module keeps two globals: \<^verbatim>\<open>data\<close>, the readings seen so far by key, and
  \<^verbatim>\<open>timestamp\<close>, \<^verbatim>\<open>None\<close> until the first reading of a known key arrives.
\<close>

record listener_state =
  data :: "(string \<times> SensorReading) list"
  timestamp :: "real option"

text \<open>
  What the listener hands to the MQTT client: the value of a key on the topic
  \<^verbatim>\<open>ws/<key>\<close>, and the clock in whole seconds on the topic \<^verbatim>\<open>ws/dt\<close>.
\<close>

datatype published = PublishKey string pyval | PublishDt int

text \<open>
  Lines 26 to 29, reached unless the iteration was left by \<^verbatim>\<open>continue\<close>: publish the
  stored value of the key, then, with a clock that is set, publish the clock and
  move it on by one second.
\<close>

definition forward :: "listener_state \<Rightarrow> string \<Rightarrow> pyval \<Rightarrow> listener_state \<times> published list" where
  "forward st key v =
     (case timestamp st of
        None \<Rightarrow> (st, [PublishKey key v])
      | Some t \<Rightarrow> (st\<lparr>timestamp := Some (t + 1)\<rparr>, [PublishKey key v, PublishDt (py_int t)]))"





text \<open>How often a key is published in an output, and how many keys are.\<close>

fun publishes_key :: "string \<Rightarrow> published \<Rightarrow> bool" where
  "publishes_key key (PublishKey k v) \<longleftrightarrow> k = key"
| "publishes_key key (PublishDt t) \<longleftrightarrow> False"


fun is_key_message :: "published \<Rightarrow> bool" where
  "is_key_message (PublishKey key v) \<longleftrightarrow> True"
| "is_key_message (PublishDt t) \<longleftrightarrow> False"

definition keys_published :: "published list \<Rightarrow> nat" where
  "keys_published out = length (filter is_key_message out)"



section \<open>The sliding window: capacity, order and eviction\<close>

lemma py_slice_from_neg:
  "0 < k \<Longrightarrow> py_slice_from (- k) xs = drop (length xs - nat k) xs"
  by (auto simp: py_slice_from_def Let_def max_def intro: arg_cong2 [where f = drop])

lemma py_slice_from_zero: "py_slice_from 0 xs = xs"
  by (simp add: py_slice_from_def)

lemma store_size [simp]: "sampler_size (store s x) = sampler_size s"
  by (simp add: store_def)

lemma start_size [simp]: "sampler_size (start s) = sampler_size s"
  by (simp add: start_def)

lemma store_all_size [simp]: "sampler_size (store_all s xs) = sampler_size s"
  unfolding store_all_def by (induction xs arbitrary: s) simp_all

lemma store_all_snoc: "store_all s (xs @ [x]) = store (store_all s xs) x"
  by (simp add: store_all_def)

lemma store_all_suffix:
  assumes "1 \<le> sampler_size s"
  shows "sampler_data (store_all (start s) xs) = drop (length xs - nat (sampler_size s)) xs"
proof (induction xs rule: rev_induct)
  case Nil
  show ?case by (simp add: store_all_def start_def)
next
  case (snoc x xs)
  have sz: "sampler_size (store_all (start s) xs) = sampler_size s"
    by simp
  have "sampler_data (store_all (start s) (xs @ [x]))
      = py_slice_from (- sampler_size s) (sampler_data (store_all (start s) xs) @ [x])"
    by (simp add: store_all_snoc store_def sz)
  also have "\<dots> = drop (length (drop (length xs - nat (sampler_size s)) xs @ [x]) - nat (sampler_size s))
                     (drop (length xs - nat (sampler_size s)) xs @ [x])"
    using assms by (simp add: py_slice_from_neg snoc.IH)
  also have "\<dots> = drop (length (xs @ [x]) - nat (sampler_size s)) (xs @ [x])"
    using assms by (cases "length xs < nat (sampler_size s)") (auto simp: Suc_diff_le)
  finally show ?case .
qed

lemma py_int_short: "0 \<le> d \<Longrightarrow> d < i \<Longrightarrow> py_int (d / i) = 0"
proof -
  assume d: "0 \<le> d" "d < i"
  then have "0 \<le> d / i" and "d / i < 1" by simp_all
  then show ?thesis by (simp add: py_int_def floor_eq_iff)
qed

lemma store_all_zero_capacity:
  assumes "sampler_size s = 0"
  shows "sampler_data (store_all (start s) xs) = xs"
proof (induction xs rule: rev_induct)
  case Nil
  show ?case by (simp add: store_all_def start_def)
next
  case (snoc x xs)
  have "sampler_size (store_all (start s) xs) = 0"
    using assms by simp
  then show ?case
    by (simp add: store_all_snoc store_def py_slice_from_zero snoc.IH)
qed

text \<open>
  C6 (the code departs from the claim). With a 5 second interval and a 3 second
  retention, construction returns a sampler of capacity \<open>\<lfloor>3 / 5\<rfloor> = 0\<close>. The slice
  \<^verbatim>\<open>self._data[-0:]\<close> of \<^verbatim>\<open>_store\<close> is then the whole list: after any sequence of
  appended samples the window holds all of them, so its length exceeds the capacity
  from the first append on and no sample is ever evicted. (For a capacity of one or
  more, \<open>store_all_suffix\<close> above gives the window the claim describes.)
\<close>

theorem window_grows_at_zero_capacity:
  "(IntervalSampler_init 5 3 :: py_error + 'a interval_sampler)
     = Inr \<lparr>sampler_interval = 5, sampler_size = 0, sampler_data = []\<rparr>
   \<and> \<lfloor>3 / 5 :: real\<rfloor> = 0
   \<and> sampler_data (store_all
         (start \<lparr>sampler_interval = 5, sampler_size = 0, sampler_data = []\<rparr>)
         (xs :: 'a list)) = xs
   \<and> sampler_data (store_all
         (start \<lparr>sampler_interval = 5, sampler_size = 0, sampler_data = []\<rparr>)
         [7, 8 :: real]) = [7, 8]
   \<and> \<not> int (length (sampler_data (store_all
         (start \<lparr>sampler_interval = 5, sampler_size = 0, sampler_data = []\<rparr>)
         [7, 8 :: real]))) \<le> 0"
  by (simp add: IntervalSampler_init_def py_int_def store_all_zero_capacity)

text \<open>
  C5 (amended). Construction checks nothing but the division: it fails exactly when the
  interval is zero, and for every positive interval and every non-negative retention
  duration smaller than the interval it returns a sampler of capacity zero.
\<close>

theorem init_accepts_short_duration:
  "((\<exists>e. (IntervalSampler_init interval duration :: py_error + 'a interval_sampler) = Inl e)
      \<longleftrightarrow> interval = 0)
   \<and> (0 \<le> duration \<and> duration < interval \<longrightarrow>
        (IntervalSampler_init interval duration :: py_error + 'a interval_sampler)
          = Inr \<lparr>sampler_interval = interval, sampler_size = 0, sampler_data = []\<rparr>)"
  by (auto simp: IntervalSampler_init_def py_int_short)

theorem init_accepts_short_duration_witness:
  "(0::real) \<le> 59 \<and> (59::real) < 60
   \<and> (IntervalSampler_init 60 59 :: py_error + real interval_sampler)
       = Inr \<lparr>sampler_interval = 60, sampler_size = 0, sampler_data = []\<rparr>
   \<and> (\<nexists>e. (IntervalSampler_init 60 59 :: py_error + real interval_sampler) = Inl e)"
  using init_accepts_short_duration [of 60 59, where ?'a = real] by simp

text \<open>
  C5 as stated fails: a 3 second retention with a 5 second interval is smaller than the
  interval, and construction returns a sampler.
\<close>

theorem init_short_duration_counterexample:
  "(3::real) < 5
   \<and> (IntervalSampler_init 5 3 :: py_error + real interval_sampler)
       = Inr \<lparr>sampler_interval = 5, sampler_size = 0, sampler_data = []\<rparr>"
  by (simp add: IntervalSampler_init_def py_int_def)

section \<open>The circular mean\<close>























lemma average_angles_nonempty:
  assumes "angles \<noteq> []"
  shows "\<exists>v. average_angles angles = Inr v"
  using assms by (simp add: average_angles_def Let_def split: prod.splits)




lemma WeatherStation_readings_eq:
  "WeatherStation_readings now =
     [(''humidity'', SensorReading_init PNone None (Some ''%'') now),
      (''pressure'', SensorReading_init PNone None (Some ''hPa'') now),
      (''pressure-trend'', SensorReading_init (PStr ''hPa/hr'') None None now),
      (''temperature'', SensorReading_init PNone None (Some degC) now),
      (''temperature-trend'', SensorReading_init (PStr (degC @ ''/hr'')) None None now),
      (''dew_point'', SensorReading_init PNone None (Some degC) now),
      (''wind_deg'', SensorReading_init PNone None (Some ''degrees'') now),
      (''wind_gust'', SensorReading_init PNone None (Some ''m/s'') now),
      (''wind_speed'', SensorReading_init PNone None (Some ''m/s'') now),
      (''rain_1h'', SensorReading_init PNone None (Some ''mm'') now),
      (''rain_6h'', SensorReading_init PNone None (Some ''mm'') now),
      (''rain_24h'', SensorReading_init PNone None (Some ''mm'') now)]"
  by (simp add: WeatherStation_readings_def readings_display_def)

lemma wind_direction_sample_returns:
  assumes "average_angles data_w = Inr v"
  shows "\<exists>st. wind_direction_sample data_w now (WeatherStation_readings now0)
       = Inr (st, [(''wind_deg'',
            \<lparr>reading_value = PNum (of_int (py_round v)), reading_timestamp = now,
             reading_unit = Some ''degrees''\<rparr>)])"
  by (simp add: wind_direction_sample_def assms bind_err_def reading_update_def
      WeatherStation_readings_eq publish_def update_def SensorReading_init_def)

lemma store_nonempty: "0 \<le> sampler_size s \<Longrightarrow> sampler_data (store s x) \<noteq> []"
  by (auto simp: store_def py_slice_from_def Let_def max_def)

text \<open>
  C10. \<^verbatim>\<open>average_angles\<close> returns a value on every non-empty list: the division
  \<^verbatim>\<open>s / c\<close> is the guarded one. On the empty list the division by the sample count
  raises. The window that \<^verbatim>\<open>_store\<close> hands to the wind-direction callback is never
  empty, in every state of the sampler that \<^verbatim>\<open>WeatherStation\<close> constructs, since the
  sample is appended first; so the call of \<^verbatim>\<open>average_angles\<close> returns, and with it the
  callback \<^verbatim>\<open>_wind_direction_sample\<close> on the store of the station.
\<close>

theorem average_angles_safe_on_window:
  "(angles \<noteq> [] \<longrightarrow> (\<exists>v. average_angles angles = Inr v))
   \<and> average_angles [] = Inl ZeroDivisionError
   \<and> (\<exists>w. IntervalSampler_init WIND_DIRECTION_SAMPLE_INTERVAL WIND_DIRECTION_SAMPLE_DURATION
             = Inr w
        \<and> (\<forall>samples x.
               sampler_data (store (store_all (start w) samples) x) \<noteq> []
             \<and> (\<exists>v. average_angles (sampler_data (store (store_all (start w) samples) x))
                      = Inr v)
             \<and> (\<exists>st batch.
                   wind_direction_sample (sampler_data (store (store_all (start w) samples) x))
                     now (WeatherStation_readings now0) = Inr (st, batch))))"
proof -
  have nonempty: "\<exists>v. average_angles angles = Inr v" if "angles \<noteq> []" for angles
    using average_angles_nonempty [OF that] by blast
  have empty: "average_angles [] = Inl ZeroDivisionError"
    by (simp add: average_angles_def)
  define w :: "real interval_sampler"
    where "w = \<lparr>sampler_interval = 1, sampler_size = 3, sampler_data = []\<rparr>"
  have init: "IntervalSampler_init WIND_DIRECTION_SAMPLE_INTERVAL WIND_DIRECTION_SAMPLE_DURATION
      = Inr w"
    by (simp add: IntervalSampler_init_def WIND_DIRECTION_SAMPLE_INTERVAL_def
        WIND_DIRECTION_SAMPLE_DURATION_def WIND_SPEED_SAMPLE_INTERVAL_def py_int_def w_def)
  have window: "sampler_data (store (store_all (start w) samples) x) \<noteq> []" for samples x
    by (rule store_nonempty) (simp add: w_def)
  have callback: "\<exists>st batch.
      wind_direction_sample (sampler_data (store (store_all (start w) samples) x))
        now (WeatherStation_readings now0) = Inr (st, batch)" for samples x
  proof -
    from nonempty [OF window [of samples x]] obtain v
      where "average_angles (sampler_data (store (store_all (start w) samples) x)) = Inr v"
      by blast
    from wind_direction_sample_returns [OF this, of now now0] show ?thesis
      by blast
  qed
  from nonempty init empty window callback show ?thesis by blast
qed

theorem average_angles_safe_on_window_witness:
  "\<exists>v. average_angles [270, 292.5] = Inr v"
proof -
  have "[270, 292.5 :: real] \<noteq> []" by simp
  with average_angles_safe_on_window [of "[270, 292.5]"] show ?thesis by blast
qed

section \<open>The wind-direction classifier\<close>

lemma degree_find:
  "degree ths v = map_option fst (find (\<lambda>(angle, threshold). v \<le> threshold) ths)"
  by (induction ths v rule: degree.induct) simp_all

lemma thresholds_4700:
  "thresholds_by_angle 4700 =
     Inr (map (\<lambda>i. (fst (RESISTANCE_BY_ANGLE ! i), threshold_spec 4700 i)) [0..<16])"
  by (simp add: thresholds_by_angle_def RESISTANCE_BY_ANGLE_def threshold_spec_def ratio_def
      upt_rec)

lemma all_below_16: "(\<forall>i<16. P i) \<longleftrightarrow> list_all P [0..<16]"
  by (auto simp: list_all_iff)

lemma degree_at_ratio:
  "list_all
     (\<lambda>i. degree (map (\<lambda>i. (fst (RESISTANCE_BY_ANGLE ! i), threshold_spec 4700 i)) [0..<16])
            (ratio 4700 i)
          = Some (fst (RESISTANCE_BY_ANGLE ! i))) [0..<16]"
  by (simp add: RESISTANCE_BY_ANGLE_def threshold_spec_def ratio_def upt_rec)

lemma degree_at_one:
  "degree (map (\<lambda>i. (fst (RESISTANCE_BY_ANGLE ! i), threshold_spec 4700 i)) [0..<16]) 1
     = Some 112.5"
  by (simp add: RESISTANCE_BY_ANGLE_def threshold_spec_def ratio_def upt_rec)

text \<open>
  C9. With the pull-up resistance 4700, construction of the classifier succeeds; its
  table has, entry by entry in the order of the resistance table, the angle and the
  threshold the specification gives (the mean of the entry's ratio and the next one,
  and 1 for the last entry); \<^verbatim>\<open>degree\<close> returns the angle of the first entry whose
  threshold is at least the sampled ratio; the ratio of every entry classifies to the
  angle of that entry; and the ratio 1 classifies to 112.5, the last angle.
\<close>

theorem wind_direction_classification:
  "\<exists>ths. thresholds_by_angle WIND_DIRECTION_RESISTOR = Inr ths
     \<and> length ths = length RESISTANCE_BY_ANGLE
     \<and> (\<forall>i<16. ths ! i
            = (fst (RESISTANCE_BY_ANGLE ! i), threshold_spec WIND_DIRECTION_RESISTOR i))
     \<and> (\<forall>v. degree ths v
            = map_option fst (find (\<lambda>(angle, threshold). v \<le> threshold) ths))
     \<and> (\<forall>i<16. degree ths (ratio WIND_DIRECTION_RESISTOR i)
            = Some (fst (RESISTANCE_BY_ANGLE ! i)))
     \<and> degree ths 1 = Some 112.5
     \<and> fst (last RESISTANCE_BY_ANGLE) = 112.5"
proof -
  let ?ths = "map (\<lambda>i. (fst (RESISTANCE_BY_ANGLE ! i), threshold_spec 4700 i)) [0..<16]"
  have a: "thresholds_by_angle WIND_DIRECTION_RESISTOR = Inr ?ths"
    by (simp only: WIND_DIRECTION_RESISTOR_def thresholds_4700)
  have b: "length ?ths = length RESISTANCE_BY_ANGLE"
    by (simp add: RESISTANCE_BY_ANGLE_def)
  have c: "\<forall>i<16. ?ths ! i
      = (fst (RESISTANCE_BY_ANGLE ! i), threshold_spec WIND_DIRECTION_RESISTOR i)"
    by (simp add: WIND_DIRECTION_RESISTOR_def)
  have d: "\<forall>i<16. degree ?ths (ratio WIND_DIRECTION_RESISTOR i)
      = Some (fst (RESISTANCE_BY_ANGLE ! i))"
    unfolding WIND_DIRECTION_RESISTOR_def all_below_16 by (rule degree_at_ratio)
  have e: "degree ?ths 1 = Some 112.5"
    by (rule degree_at_one)
  have f: "fst (last RESISTANCE_BY_ANGLE) = 112.5"
    by (simp add: RESISTANCE_BY_ANGLE_def)
  from a b c d e f degree_find show ?thesis by blast
qed

theorem wind_direction_classification_witness:
  "\<exists>ths. thresholds_by_angle WIND_DIRECTION_RESISTOR = Inr ths
     \<and> ratio WIND_DIRECTION_RESISTOR 3 = 4700 / 37700
     \<and> degree ths (4700 / 37700) = Some 0"
proof -
  from wind_direction_classification obtain ths
    where ths: "thresholds_by_angle WIND_DIRECTION_RESISTOR = Inr ths"
      and at: "\<forall>i<16. degree ths (ratio WIND_DIRECTION_RESISTOR i)
                 = Some (fst (RESISTANCE_BY_ANGLE ! i))"
    by blast
  have r: "ratio WIND_DIRECTION_RESISTOR 3 = 4700 / 37700"
    by (simp add: ratio_def WIND_DIRECTION_RESISTOR_def RESISTANCE_BY_ANGLE_def)
  have "fst (RESISTANCE_BY_ANGLE ! 3) = 0"
    by (simp add: RESISTANCE_BY_ANGLE_def)
  moreover from at have "degree ths (ratio WIND_DIRECTION_RESISTOR 3)
      = Some (fst (RESISTANCE_BY_ANGLE ! 3))"
    by simp
  ultimately have "degree ths (4700 / 37700) = Some 0"
    unfolding r by (simp only:)
  with ths r show ?thesis by blast
qed

section \<open>The batch of the rain callback\<close>

text \<open>
  C3 (the code departs from the claim). On the store of a new \<^verbatim>\<open>WeatherStation\<close>, for
  every rain window, \<^verbatim>\<open>_rain_sample\<close> returns; it has written the 24 hour total into
  the reading \<^verbatim>\<open>rain_24h\<close>, and the batch it emits holds the keys \<^verbatim>\<open>rain_1h\<close> and
  \<^verbatim>\<open>rain_6h\<close> only: the key set handed to \<^verbatim>\<open>_publish\<close> names \<^verbatim>\<open>rain_24\<close>, which is
  no key of the store.
\<close>

theorem rain_sample_batch_lacks_rain_24h:
  "\<exists>st batch. rain_sample data_w now (WeatherStation_readings now0) = Inr (st, batch)
     \<and> map fst batch = [''rain_1h'', ''rain_6h'']
     \<and> map_of st ''rain_24h''
         = Some \<lparr>reading_value = PNum (RAIN_SCALE_FACTOR * of_int (sum_list data_w)),
                 reading_timestamp = now, reading_unit = Some ''mm''\<rparr>
     \<and> map_of (WeatherStation_readings now0) ''rain_24h''
         = Some \<lparr>reading_value = PNone, reading_timestamp = now0, reading_unit = Some ''mm''\<rparr>"
  by (simp add: rain_sample_def WeatherStation_readings_eq reading_update_def bind_err_def
      publish_def update_def SensorReading_init_def)

text \<open>
  The same at one input: a window with one bucket tip, five minutes after the start.
  Three readings of the store have changed, two are in the batch.
\<close>

lemma rain_sample_one_tip:
  "\<exists>st batch. rain_sample [1] 300 (WeatherStation_readings 0) = Inr (st, batch)
     \<and> updated_keys (WeatherStation_readings 0) st = [''rain_1h'', ''rain_6h'', ''rain_24h'']
     \<and> map fst batch = [''rain_1h'', ''rain_6h'']"
  by (simp add: rain_sample_def WeatherStation_readings_eq reading_update_def bind_err_def
      publish_def update_def SensorReading_init_def updated_keys_def py_slice_from_def
      py_int_def RAIN_SAMPLE_INTERVAL_def RAIN_SCALE_FACTOR_def)

section \<open>The pulse counter\<close>

lemma run_steps_append: "run_steps b (xs @ ys) = run_steps (run_steps b xs) ys"
  by (simp add: run_steps_def)

lemma run_steps_ticks: "run_steps b (ticks n) = b\<lparr>count := count b + int n\<rparr>"
proof (induction n arbitrary: b)
  case 0
  show ?case by (simp add: run_steps_def ticks_def)
next
  case (Suc n)
  have "run_steps b (ticks (Suc n)) = run_steps (button_step b Tick) (ticks n)"
    by (simp add: run_steps_def ticks_def)
  also have "\<dots> = b\<lparr>count := count b + int (Suc n)\<rparr>"
    by (simp add: Suc.IH)
  finally show ?case .
qed

lemma run_steps_sample:
  "run_steps b sample_uninterrupted = b\<lparr>window := store (window b) (count b), count := 0\<rparr>"
  by (simp add: run_steps_def sample_uninterrupted_def)

text \<open>
  C1 (amended). When no pulse callback runs between the two statements of
  \<^verbatim>\<open>_sample\<close>, every pulse is counted in exactly one window: with \<open>m\<close> pulses before an
  acquisition and \<open>n\<close> pulses between it and the next one, a sampler of capacity two
  or more, freshly started, holds the window \<open>[m, n]\<close> after the second acquisition,
  and its counter is back at zero.
\<close>

theorem pulses_counted_once_without_interruption:
  assumes "2 \<le> sampler_size s"
  shows "sampler_data (window (run_steps (button_start s)
             (ticks m @ sample_uninterrupted @ ticks n @ sample_uninterrupted)))
           = [int m, int n]
       \<and> count (run_steps (button_start s)
             (ticks m @ sample_uninterrupted @ ticks n @ sample_uninterrupted)) = 0"
  using assms
  by (simp add: run_steps_append run_steps_ticks run_steps_sample button_start_def start_def
      store_def py_slice_from_def)

theorem pulses_counted_once_without_interruption_witness:
  "sampler_data (window (run_steps
       (button_start \<lparr>sampler_interval = 300, sampler_size = 288, sampler_data = []\<rparr>)
       (ticks 2 @ sample_uninterrupted @ ticks 3 @ sample_uninterrupted))) = [2, 3]"
  using pulses_counted_once_without_interruption
    [of "\<lparr>sampler_interval = 300, sampler_size = 288, sampler_data = []\<rparr>" 2 3]
  by simp

text \<open>
  C1 as stated fails: the read and the reset are two statements, and a pulse that
  arrives between them is counted in no window. Here one pulse is delivered during the
  first of two acquisitions; both windows hold 0 and the counter is 0.
\<close>

theorem pulse_lost_between_read_and_reset_counterexample:
  "sampler_data (window (run_steps
       (button_start \<lparr>sampler_interval = 300, sampler_size = 288, sampler_data = []\<rparr>)
       [SampleStore, Tick, SampleReset, SampleStore, SampleReset])) = [0, 0]
   \<and> count (run_steps
       (button_start \<lparr>sampler_interval = 300, sampler_size = 288, sampler_data = []\<rparr>)
       [SampleStore, Tick, SampleReset, SampleStore, SampleReset]) = 0
   \<and> length (filter (\<lambda>a. a = Tick) [SampleStore, Tick, SampleReset, SampleStore, SampleReset])
       = 1"
  by (simp add: run_steps_def button_start_def start_def store_def py_slice_from_def)

section \<open>The listener: what is forwarded\<close>


lemma forward_data [simp]: "data (fst (forward st key v)) = data st"
  by (simp add: forward_def split: option.splits)

lemma forward_timestamp [simp]:
  "timestamp (fst (forward st key v)) = map_option (\<lambda>t. t + 1) (timestamp st)"
  by (simp add: forward_def split: option.splits)

lemma forward_filter [simp]:
  "filter (publishes_key k) (snd (forward st key v)) = (if key = k then [PublishKey key v] else [])"
  by (simp add: forward_def split: option.splits)

lemma forward_keys_published [simp]: "keys_published (snd (forward st key v)) = 1"
  by (simp add: forward_def keys_published_def split: option.splits)












section \<open>The listener: its clock\<close>

lemma keys_published_append [simp]:
  "keys_published (xs @ ys) = keys_published xs + keys_published ys"
  by (simp add: keys_published_def)

lemma keys_published_Nil [simp]: "keys_published [] = 0"
  by (simp add: keys_published_def)









section \<open>The trend is the least-squares slope\<close>

lemma sum_index: "(\<Sum>i<n. real i) = real n * (real n - 1) / 2"
  by (induction n) (simp_all add: field_simps)

lemma sum_index_sq: "(\<Sum>i<n. real i * real i) = (real n - 1) * real n * (2 * real n - 1) / 6"
  by (induction n) (simp_all add: field_simps)

lemma sum_list_indices: "sum_list (map real [0..<n]) = (\<Sum>i<n. real i)"
  by (simp add: sum_list_sum_nth atLeast0LessThan)

lemma sum_list_indices_sq:
  "sum_list (map (\<lambda>x. x * x) (map real [0..<n])) = (\<Sum>i<n. real i * real i)"
  by (simp add: sum_list_sum_nth atLeast0LessThan)

lemma sum_list_series: "sum_list ys = (\<Sum>i<length ys. ys ! i)"
  by (simp add: sum_list_sum_nth atLeast0LessThan)

lemma sum_list_products:
  "sum_list (map2 (\<lambda>x y. x * y) (map real [0..<length ys]) ys) = (\<Sum>i<length ys. real i * ys ! i)"
  by (simp add: sum_list_sum_nth atLeast0LessThan)

lemma denominator_pos:
  assumes "2 \<le> n"
  shows "0 < real n * (\<Sum>i<n. real i * real i) - (\<Sum>i<n. real i) * (\<Sum>i<n. real i)"
proof -
  have eq: "real n * (\<Sum>i<n. real i * real i) - (\<Sum>i<n. real i) * (\<Sum>i<n. real i)
      = (real n)\<^sup>2 * ((real n)\<^sup>2 - 1) / 12"
    by (simp add: sum_index sum_index_sq power2_eq_square field_simps)
  from assms have "2 \<le> real n" by simp
  then have "2 * 2 \<le> real n * real n"
    by (intro mult_mono) simp_all
  then have "1 < real n * real n"
    by simp
  then have "0 < (real n)\<^sup>2 * ((real n)\<^sup>2 - 1) / 12"
    by (simp add: power2_eq_square)
  then show ?thesis by (simp only: eq)
qed

lemma residual_split:
  fixes y a b m c x :: real
  shows "(y - (a * x + b))\<^sup>2
       = (y - (m * x + c))\<^sup>2 + ((m - a) * x + (c - b))\<^sup>2
         + 2 * (m - a) * (x * (y - (m * x + c))) + 2 * (c - b) * (y - (m * x + c))"
  by (simp add: power2_eq_square algebra_simps)

lemma sse_split:
  "sse ys a b = sse ys m c + (\<Sum>i<length ys. ((m - a) * real i + (c - b))\<^sup>2)
      + 2 * (m - a) * (\<Sum>i<length ys. real i * (ys ! i - (m * real i + c)))
      + 2 * (c - b) * (\<Sum>i<length ys. ys ! i - (m * real i + c))"
  unfolding sse_def
  by (subst residual_split [of _ a _ b m c]) (simp add: sum.distrib sum_distrib_left)

lemma trend_eq:
  assumes "2 \<le> length ys"
  shows "trend ys = (real (length ys) * (\<Sum>i<length ys. real i * ys ! i)
             - (\<Sum>i<length ys. real i) * (\<Sum>i<length ys. ys ! i))
           / (real (length ys) * (\<Sum>i<length ys. real i * real i)
             - (\<Sum>i<length ys. real i) * (\<Sum>i<length ys. real i))"
proof -
  from assms have "trend ys = polyfit_slope (map real [0..<length ys]) ys"
    by (simp add: trend_def)
  also have "\<dots> = (real (length ys) * (\<Sum>i<length ys. real i * ys ! i)
             - (\<Sum>i<length ys. real i) * (\<Sum>i<length ys. ys ! i))
           / (real (length ys) * (\<Sum>i<length ys. real i * real i)
             - (\<Sum>i<length ys. real i) * (\<Sum>i<length ys. real i))"
    unfolding polyfit_slope_def Let_def
    by (simp only: sum_list_indices sum_list_indices_sq sum_list_products
        sum_list_series [of ys] length_map length_upt diff_zero)
  finally show ?thesis .
qed

lemma normal_equation_1:
  assumes "2 \<le> length ys"
  shows "(\<Sum>i<length ys. ys ! i - (trend ys * real i + intercept ys)) = 0"
proof -
  from assms have n: "real (length ys) \<noteq> 0" by auto
  have "(\<Sum>i<length ys. ys ! i - (trend ys * real i + intercept ys))
      = (\<Sum>i<length ys. ys ! i) - trend ys * (\<Sum>i<length ys. real i)
          - real (length ys) * intercept ys"
    by (simp add: sum_subtractf sum.distrib sum_distrib_left)
  also have "\<dots> = 0"
    using n by (simp add: intercept_def)
  finally show ?thesis .
qed

lemma normal_equation_2:
  assumes "2 \<le> length ys"
  shows "(\<Sum>i<length ys. real i * (ys ! i - (trend ys * real i + intercept ys))) = 0"
proof -
  let ?n = "real (length ys)"
  let ?sx = "\<Sum>i<length ys. real i"
  let ?sy = "\<Sum>i<length ys. ys ! i"
  let ?sxy = "\<Sum>i<length ys. real i * ys ! i"
  let ?sxx = "\<Sum>i<length ys. real i * real i"
  from assms have n: "?n \<noteq> 0" by auto
  from denominator_pos [OF assms] have d: "?n * ?sxx - ?sx * ?sx \<noteq> 0" by simp
  have m: "trend ys * (?n * ?sxx - ?sx * ?sx) = ?n * ?sxy - ?sx * ?sy"
    using d by (simp add: trend_eq [OF assms])
  have "(\<Sum>i<length ys. real i * (ys ! i - (trend ys * real i + intercept ys)))
      = ?sxy - trend ys * ?sxx - intercept ys * ?sx"
    by (simp add: algebra_simps sum_subtractf sum.distrib sum_distrib_left)
  also have "\<dots> = (?n * ?sxy - ?sx * ?sy - trend ys * (?n * ?sxx - ?sx * ?sx)) / ?n"
    using n by (simp add: intercept_def field_simps)
  also have "\<dots> = 0"
    by (simp add: m)
  finally show ?thesis .
qed

lemma sse_trend:
  assumes "2 \<le> length ys"
  shows "sse ys a b = sse ys (trend ys) (intercept ys)
      + (\<Sum>i<length ys. ((trend ys - a) * real i + (intercept ys - b))\<^sup>2)"
  by (simp add: sse_split [of ys a b "trend ys" "intercept ys"]
      normal_equation_1 [OF assms] normal_equation_2 [OF assms])

lemma trend_least_squares:
  assumes "2 \<le> length ys"
  shows "least_squares_line ys (trend ys) (intercept ys)"
  unfolding least_squares_line_def
proof (intro allI)
  fix a b
  have "0 \<le> (\<Sum>i<length ys. ((trend ys - a) * real i + (intercept ys - b))\<^sup>2)"
    by (rule sum_nonneg) simp
  then show "sse ys (trend ys) (intercept ys) \<le> sse ys a b"
    by (simp add: sse_trend [OF assms, of a b])
qed

lemma least_squares_unique:
  assumes "2 \<le> length ys" and "least_squares_line ys a b"
  shows "a = trend ys"
proof -
  let ?q = "\<lambda>i. ((trend ys - a) * real i + (intercept ys - b))\<^sup>2"
  from assms(2) have "sse ys a b \<le> sse ys (trend ys) (intercept ys)"
    by (simp add: least_squares_line_def)
  then have "(\<Sum>i<length ys. ?q i) \<le> 0"
    by (simp add: sse_trend [OF assms(1), of a b])
  moreover have "0 \<le> (\<Sum>i<length ys. ?q i)"
    by (rule sum_nonneg) simp
  ultimately have "(\<Sum>i<length ys. ?q i) = 0" by simp
  then have zero: "\<forall>i\<in>{..<length ys}. ?q i = 0"
    by (subst (asm) sum_nonneg_eq_0_iff) simp_all
  from assms(1) have "0 < length ys" and "1 < length ys" by linarith+
  with zero have "?q 0 = 0" and "?q 1 = 0" by blast+
  then show ?thesis by simp
qed

lemma trend_1_2_3: "trend [1, 2, 3] = 1"
  by (simp add: trend_def polyfit_slope_def upt_rec)

lemma trend_per_hour_1_2_3: "trend_per_hour [1, 2, 3] = 60"
  by (simp add: trend_per_hour_def trend_1_2_3 AIR_SAMPLE_INTERVAL_def)

lemma trend_reading_1_2_3: "trend_reading [1, 2, 3] = 60"
  by (simp add: trend_reading_def trend_per_hour_1_2_3 py_round1_def py_round_def)

text \<open>
  C7. In exact arithmetic, with \<^verbatim>\<open>numpy.polyfit\<close> as modelled: a series of length at
  most one has trend 0; for a longer series the trend is the slope of a line that
  minimises the sum of squared residuals against the sample indices 0, 1, 2, \<dots>, and
  every line that minimises it has this slope; the callback scales the trend by
  3600 over the sampling interval of 60 seconds; and the series \<open>[1, 2, 3]\<close> has trend 1,
  which is 60 per hour, also after the rounding to one decimal.
\<close>

theorem trend_is_least_squares_slope:
  "(length series \<le> 1 \<longrightarrow> trend series = 0)
   \<and> (2 \<le> length series \<longrightarrow>
        (\<exists>b. least_squares_line series (trend series) b)
      \<and> (\<forall>a b. least_squares_line series a b \<longrightarrow> a = trend series))
   \<and> trend_per_hour series = trend series * (3600 / AIR_SAMPLE_INTERVAL)
   \<and> AIR_SAMPLE_INTERVAL = 60
   \<and> trend [1, 2, 3] = 1
   \<and> trend_per_hour [1, 2, 3] = 60
   \<and> trend_reading [1, 2, 3] = 60"
proof -
  have short: "trend series = 0" if "length series \<le> 1"
    using that by (simp add: trend_def)
  have fit: "\<exists>b. least_squares_line series (trend series) b" if "2 \<le> length series"
    using trend_least_squares [OF that] by blast
  have unique: "a = trend series" if "2 \<le> length series" "least_squares_line series a b" for a b
    using least_squares_unique [OF that] .
  have scale: "trend_per_hour series = trend series * (3600 / AIR_SAMPLE_INTERVAL)"
    by (simp add: trend_per_hour_def)
  have interval: "AIR_SAMPLE_INTERVAL = 60"
    by (simp add: AIR_SAMPLE_INTERVAL_def)
  from short fit unique scale interval trend_1_2_3 trend_per_hour_1_2_3 trend_reading_1_2_3
  show ?thesis by blast
qed

theorem trend_is_least_squares_slope_witness:
  "trend [1013] = 0 \<and> (\<exists>b. least_squares_line [1, 2, 3] 1 b)"
proof -
  have one: "length [1013 :: real] \<le> 1" by simp
  have three: "2 \<le> length [1, 2, 3 :: real]" by simp
  from trend_is_least_squares_slope [of "[1013]"] one have "trend [1013] = 0"
    by blast
  moreover from trend_is_least_squares_slope [of "[1, 2, 3]"] three
  have "\<exists>b. least_squares_line [1, 2, 3] (trend [1, 2, 3]) b"
    by blast
  moreover from trend_is_least_squares_slope [of "[1, 2, 3]"] have "trend [1, 2, 3] = 1"
    by blast
  ultimately show ?thesis by (simp only:)
qed

end
